theory Spec2Isabelle
  imports Complex_Main
begin

section \<open>Lambert Azimuthal Equal Area (src/projections/laea.cpp)\<close>

text \<open>
  A shallow embedding of the four transform kernels and of the setup routine of the
  projection. The C type \<open>double\<close> is read as \<^typ>\<open>real\<close>: comparisons, branches and
  the values written into the results are those of the source, and rounding, infinities
  and NaN are outside the model (a quotient by zero, a square root or an arc sine outside
  its domain is where the two differ). Pointers that may be null are options.
\<close>

subsection \<open>Data model\<close>

datatype Mode = N_POLE | S_POLE | EQUIT | OBLIQ

record pj_laea_data =
  sinb1 :: real
  cosb1 :: real
  xmf :: real
  ymf :: real
  mmf :: real
  qp :: real
  dd :: real
  rq :: real
  apa :: "real list option"
  mode :: Mode

record PJ_LP =
  lam :: real
  phi :: real

record PJ_XY =
  x :: real
  y :: real

text \<open>The error codes of proj.h that this file uses.\<close>

datatype proj_err =
    PROJ_ERR_INVALID_OP_ILLEGAL_ARG_VALUE
  | PROJ_ERR_COORD_TRANSFM_OUTSIDE_PROJECTION_DOMAIN
  | PROJ_ERR_OTHER

text \<open>The function pointers that the setup routine stores into the instance.\<close>

datatype pj_fwd_fn = Laea_e_forward | Laea_s_forward
datatype pj_inv_fn = Laea_e_inverse | Laea_s_inverse
datatype pj_destructor_fn = Pj_laea_destructor

text \<open>
  The instance \<open>PJ\<close> is declared in proj_internal.h, which is not part of the sources at
  hand. The record holds the members that laea.cpp reads or writes: the ellipsoid
  parameters \<open>es\<close>, \<open>e\<close>, \<open>n\<close>, the centre latitude \<open>phi0\<close>, the state block \<open>opaque\<close>,
  the three function pointers and the error slot of the instance.
\<close>

record ellipsoid =
  es :: real
  e :: real
  n :: real

record PJ = ellipsoid +
  phi0 :: real
  opaque :: "pj_laea_data option"
  destructor :: "pj_destructor_fn option"
  fwd :: "pj_fwd_fn option"
  inv_pj :: "pj_inv_fn option"
  last_errno :: "proj_err option"

text \<open>
  The authalic-latitude helper is an external collaborator of this file; its four
  functions are parameters of the model. They receive the ellipsoid parameters of the
  instance, and the coefficient generator returns \<open>None\<close> when its allocation fails.
\<close>

record authalic =
  pj_authalic_lat ::
    "real \<Rightarrow> real \<Rightarrow> real \<Rightarrow> real list option \<Rightarrow> ellipsoid \<Rightarrow> real \<Rightarrow> real"
  pj_authalic_lat_inverse :: "real \<Rightarrow> real list option \<Rightarrow> ellipsoid \<Rightarrow> real \<Rightarrow> real"
  pj_authalic_lat_q :: "real \<Rightarrow> ellipsoid \<Rightarrow> real"
  pj_authalic_lat_compute_coeffs :: "real \<Rightarrow> real list option"

subsection \<open>Constants and library functions\<close>

definition EPS10 :: real where
  "EPS10 = 1 / 10 ^ 10"

text \<open>
  \<open>M_HALFPI\<close> and \<open>M_FORTPI\<close> are macros of proj_internal.h, which is not part of the
  sources at hand: the doubles that stand for 90 and 45 degrees. They are parameters of
  the model, so that every statement holds for the values the header gives them. The
  setup routine compares the centre latitude with the constant expression
  \<open>M_HALFPI + EPS10\<close>, whose value is a double of its own, the rounded sum; it is the third
  parameter, \<open>M_HALFPI_plus_EPS10\<close>.
\<close>

record proj_macros =
  M_HALFPI :: real
  M_FORTPI :: real
  M_HALFPI_plus_EPS10 :: real

text \<open>The function \<open>hypot\<close> of the C library on the reals.\<close>

definition hypot :: "real \<Rightarrow> real \<Rightarrow> real" where
  "hypot a b = sqrt (a * a + b * b)"

text \<open>
  The two-argument arctangent of the C library, \<open>atan2 (v, u)\<close>, on the reals. Where \<open>v\<close>
  is zero and \<open>u\<close> is zero or negative the C function answers by the signs of the zeros
  (\<open>0\<close> or \<open>pi\<close>, with either sign); the reals have one zero, and the statements below
  that depend on the value of \<open>atan2\<close> keep away from these arguments.
\<close>

definition atan2 :: "real \<Rightarrow> real \<Rightarrow> real" where
  "atan2 v u =
     (if 0 < u then arctan (v / u)
      else if u < 0 then (if 0 \<le> v then arctan (v / u) + pi else arctan (v / u) - pi)
      else if 0 < v then pi / 2
      else if v < 0 then - (pi / 2)
      else 0)"

text \<open>
  Modelled from the spec: \<open>proj_errno_set\<close> is declared in proj_internal.h and defined
  elsewhere; it writes the error code into the error slot associated with the instance.
\<close>

definition proj_errno_set :: "PJ \<Rightarrow> proj_err \<Rightarrow> PJ" where
  "proj_errno_set P err = P\<lparr>last_errno := Some err\<rparr>"

text \<open>
  Modelled from the spec: \<open>pj_default_destructor\<close> is defined elsewhere; it releases the
  instance, records the error level and returns the null pointer, so that a setup that
  ends here creates no instance.
\<close>

definition pj_default_destructor :: "PJ \<Rightarrow> proj_err \<Rightarrow> proj_err + PJ" where
  "pj_default_destructor P errlev = Inl errlev"

text \<open>
  The destructor of this file frees the coefficient block when the state block is there,
  and ends in the default destructor in either case.
\<close>

definition pj_laea_destructor :: "PJ \<Rightarrow> proj_err \<Rightarrow> proj_err + PJ" where
  "pj_laea_destructor P errlev =
     (case opaque P of
        None \<Rightarrow> pj_default_destructor P errlev
      | Some Q \<Rightarrow> pj_default_destructor P errlev)"

subsection \<open>Forward transforms\<close>

text \<open>
  Each kernel takes the instance \<open>P\<close> and the state block \<open>Q\<close> that \<open>P->opaque\<close> points
  to, and returns the coordinate pair together with the instance after the call (the
  error slot is the only member a kernel writes).
\<close>

text \<open>The case shared by the two polar modes in the second \<open>switch\<close>.\<close>

definition laea_e_forward_polar ::
    "pj_laea_data \<Rightarrow> real \<Rightarrow> real \<Rightarrow> real \<Rightarrow> PJ_XY \<Rightarrow> PJ \<Rightarrow> PJ_XY \<times> PJ" where
  "laea_e_forward_polar Q coslam sinlam q xy P =
     (if q \<ge> 1 / 10 ^ 15 then
        (let b = sqrt q;
             xy = xy\<lparr>x := b * sinlam\<rparr>;
             xy = xy\<lparr>y := coslam * (if mode Q = S_POLE then b else - b)\<rparr>
         in (xy, P))
      else (xy\<lparr>x := 0, y := 0\<rparr>, P))"

definition laea_e_forward ::
    "proj_macros \<Rightarrow> authalic \<Rightarrow> PJ_LP \<Rightarrow> PJ \<Rightarrow> pj_laea_data \<Rightarrow> PJ_XY \<times> PJ" where
  "laea_e_forward K H lp P Q =
     (let xy = \<lparr>x = 0, y = 0\<rparr>;
          coslam = cos (lam lp);
          sinlam = sin (lam lp);
          sinphi = sin (phi lp);
          cosphi = cos (phi lp);
          xi = pj_authalic_lat H (phi lp) sinphi cosphi (apa Q) (ellipsoid.truncate P) (qp Q);
          q = sin xi * qp Q;
          sinb = (if mode Q = OBLIQ \<or> mode Q = EQUIT then sin xi else 0);
          cosb = (if mode Q = OBLIQ \<or> mode Q = EQUIT then cos xi else 0);
          b = (case mode Q of
                 OBLIQ \<Rightarrow> 1 + sinb1 Q * sinb + cosb1 Q * cosb * coslam
               | EQUIT \<Rightarrow> 1 + cosb * coslam
               | N_POLE \<Rightarrow> M_HALFPI K + phi lp
               | S_POLE \<Rightarrow> phi lp - M_HALFPI K);
          q = (case mode Q of
                 OBLIQ \<Rightarrow> q
               | EQUIT \<Rightarrow> q
               | N_POLE \<Rightarrow> qp Q - q
               | S_POLE \<Rightarrow> qp Q + q)
      in if \<bar>b\<bar> < EPS10 then
           (xy, proj_errno_set P PROJ_ERR_COORD_TRANSFM_OUTSIDE_PROJECTION_DOMAIN)
         else
           (case mode Q of
              OBLIQ \<Rightarrow>
                (let b = sqrt (2 / b);
                     xy = xy\<lparr>y := ymf Q * b * (cosb1 Q * sinb - sinb1 Q * cosb * coslam)\<rparr>;
                     xy = xy\<lparr>x := xmf Q * b * cosb * sinlam\<rparr>
                 in (xy, P))
            | EQUIT \<Rightarrow>
                (let b = sqrt (2 / (1 + cosb * coslam));
                     xy = xy\<lparr>y := b * sinb * ymf Q\<rparr>;
                     xy = xy\<lparr>x := xmf Q * b * cosb * sinlam\<rparr>
                 in (xy, P))
            | N_POLE \<Rightarrow> laea_e_forward_polar Q coslam sinlam q xy P
            | S_POLE \<Rightarrow> laea_e_forward_polar Q coslam sinlam q xy P))"

text \<open>
  The spherical forward kernel: the statements at the label \<open>oblcon\<close>, shared by the
  Equatorial and Oblique cases, and the statements shared by the two polar cases.
\<close>

definition laea_s_forward_oblcon ::
    "PJ_LP \<Rightarrow> PJ \<Rightarrow> pj_laea_data \<Rightarrow> real \<Rightarrow> real \<Rightarrow> real \<Rightarrow> PJ_XY \<Rightarrow> PJ_XY \<times> PJ" where
  "laea_s_forward_oblcon lp P Q sinphi cosphi coslam xy =
     (if y xy \<le> EPS10 then
        (xy, proj_errno_set P PROJ_ERR_COORD_TRANSFM_OUTSIDE_PROJECTION_DOMAIN)
      else
        (let xy = xy\<lparr>y := sqrt (2 / y xy)\<rparr>;
             xy = xy\<lparr>x := y xy * cosphi * sin (lam lp)\<rparr>;
             xy = xy\<lparr>y := y xy * (if mode Q = EQUIT then sinphi
                                    else cosb1 Q * sinphi - sinb1 Q * cosphi * coslam)\<rparr>
         in (xy, P)))"

definition laea_s_forward_polar ::
    "proj_macros \<Rightarrow> PJ_LP \<Rightarrow> PJ \<Rightarrow> pj_laea_data \<Rightarrow> real \<Rightarrow> PJ_XY \<Rightarrow> PJ_XY \<times> PJ" where
  "laea_s_forward_polar K lp P Q coslam xy =
     (if \<bar>phi lp + phi0 P\<bar> < EPS10 then
        (xy, proj_errno_set P PROJ_ERR_COORD_TRANSFM_OUTSIDE_PROJECTION_DOMAIN)
      else
        (let xy = xy\<lparr>y := M_FORTPI K - phi lp * (1 / 2)\<rparr>;
             xy = xy\<lparr>y := 2 * (if mode Q = S_POLE then cos (y xy) else sin (y xy))\<rparr>;
             xy = xy\<lparr>x := y xy * sin (lam lp)\<rparr>;
             xy = xy\<lparr>y := y xy * coslam\<rparr>
         in (xy, P)))"

definition laea_s_forward ::
    "proj_macros \<Rightarrow> PJ_LP \<Rightarrow> PJ \<Rightarrow> pj_laea_data \<Rightarrow> PJ_XY \<times> PJ" where
  "laea_s_forward K lp P Q =
     (let xy = \<lparr>x = 0, y = 0\<rparr>;
          sinphi = sin (phi lp);
          cosphi = cos (phi lp);
          coslam = cos (lam lp)
      in case mode Q of
           EQUIT \<Rightarrow>
             laea_s_forward_oblcon lp P Q sinphi cosphi coslam
               (xy\<lparr>y := 1 + cosphi * coslam\<rparr>)
         | OBLIQ \<Rightarrow>
             laea_s_forward_oblcon lp P Q sinphi cosphi coslam
               (xy\<lparr>y := 1 + sinb1 Q * sinphi + cosb1 Q * cosphi * coslam\<rparr>)
         | N_POLE \<Rightarrow> laea_s_forward_polar K lp P Q (- coslam) xy
         | S_POLE \<Rightarrow> laea_s_forward_polar K lp P Q coslam xy)"

subsection \<open>Inverse transforms\<close>

text \<open>
  The ellipsoidal inverse kernel: the two statements after the \<open>switch\<close>, the case
  shared by the polar modes and the case shared by the Equatorial and Oblique modes.
\<close>

definition laea_e_inverse_tail ::
    "authalic \<Rightarrow> PJ_XY \<Rightarrow> PJ \<Rightarrow> pj_laea_data \<Rightarrow> real \<Rightarrow> PJ_LP \<Rightarrow> PJ_LP \<times> PJ" where
  "laea_e_inverse_tail H xy P Q ab lp =
     (let lp = lp\<lparr>lam := atan2 (x xy) (y xy)\<rparr>;
          lp = lp\<lparr>phi := pj_authalic_lat_inverse H (arcsin ab) (apa Q)
                           (ellipsoid.truncate P) (qp Q)\<rparr>
      in (lp, P))"

definition laea_e_inverse_polar ::
    "authalic \<Rightarrow> PJ_XY \<Rightarrow> PJ \<Rightarrow> pj_laea_data \<Rightarrow> PJ_LP \<Rightarrow> PJ_LP \<times> PJ" where
  "laea_e_inverse_polar H xy P Q lp =
     (let q = x xy * x xy + y xy * y xy
      in if q = 0 then (lp\<lparr>lam := 0, phi := phi0 P\<rparr>, P)
         else
           (let ab = 1 - q / qp Q;
                ab = (if mode Q = S_POLE then - ab else ab)
            in laea_e_inverse_tail H xy P Q ab lp))"

definition laea_e_inverse_oblique ::
    "authalic \<Rightarrow> PJ_XY \<Rightarrow> PJ \<Rightarrow> pj_laea_data \<Rightarrow> PJ_LP \<Rightarrow> PJ_LP \<times> PJ" where
  "laea_e_inverse_oblique H xy P Q lp =
     (let xy = xy\<lparr>x := x xy / dd Q\<rparr>;
          xy = xy\<lparr>y := y xy * dd Q\<rparr>;
          rho = hypot (x xy) (y xy)
      in if rho < EPS10 then (lp\<lparr>lam := 0, phi := phi0 P\<rparr>, P)
         else
           (let asin_argument = (1 / 2) * rho / rq Q
            in if asin_argument > 1 then
                 (lp, proj_errno_set P PROJ_ERR_COORD_TRANSFM_OUTSIDE_PROJECTION_DOMAIN)
               else
                 (let sCe = 2 * arcsin asin_argument;
                      cCe = cos sCe;
                      sCe = sin sCe;
                      xy = xy\<lparr>x := x xy * sCe\<rparr>
                  in if mode Q = OBLIQ then
                       (let ab = cCe * sinb1 Q + y xy * sCe * cosb1 Q / rho;
                            xy = xy\<lparr>y := rho * cosb1 Q * cCe - y xy * sinb1 Q * sCe\<rparr>
                        in laea_e_inverse_tail H xy P Q ab lp)
                     else
                       (let ab = y xy * sCe / rho;
                            xy = xy\<lparr>y := rho * cCe\<rparr>
                        in laea_e_inverse_tail H xy P Q ab lp))))"

definition laea_e_inverse :: "authalic \<Rightarrow> PJ_XY \<Rightarrow> PJ \<Rightarrow> pj_laea_data \<Rightarrow> PJ_LP \<times> PJ" where
  "laea_e_inverse H xy P Q =
     (let lp = \<lparr>lam = 0, phi = 0\<rparr>
      in case mode Q of
           EQUIT \<Rightarrow> laea_e_inverse_oblique H xy P Q lp
         | OBLIQ \<Rightarrow> laea_e_inverse_oblique H xy P Q lp
         | N_POLE \<Rightarrow> laea_e_inverse_polar H (xy\<lparr>y := - y xy\<rparr>) P Q lp
         | S_POLE \<Rightarrow> laea_e_inverse_polar H xy P Q lp)"

definition laea_s_inverse ::
    "proj_macros \<Rightarrow> PJ_XY \<Rightarrow> PJ \<Rightarrow> pj_laea_data \<Rightarrow> PJ_LP \<times> PJ" where
  "laea_s_inverse K xy P Q =
     (let lp = \<lparr>lam = 0, phi = 0\<rparr>;
          rh = hypot (x xy) (y xy);
          lp = lp\<lparr>phi := rh * (1 / 2)\<rparr>
      in if phi lp > 1 then
           (lp, proj_errno_set P PROJ_ERR_COORD_TRANSFM_OUTSIDE_PROJECTION_DOMAIN)
         else
           (let lp = lp\<lparr>phi := 2 * arcsin (phi lp)\<rparr>;
                sinz = (if mode Q = OBLIQ \<or> mode Q = EQUIT then sin (phi lp) else 0);
                cosz = (if mode Q = OBLIQ \<or> mode Q = EQUIT then cos (phi lp) else 0);
                (lp, xy) =
                  (case mode Q of
                     EQUIT \<Rightarrow>
                       (let lp = lp\<lparr>phi := (if \<bar>rh\<bar> \<le> EPS10 then 0
                                               else arcsin (y xy * sinz / rh))\<rparr>;
                            xy = xy\<lparr>x := x xy * sinz\<rparr>;
                            xy = xy\<lparr>y := cosz * rh\<rparr>
                        in (lp, xy))
                   | OBLIQ \<Rightarrow>
                       (let lp = lp\<lparr>phi := (if \<bar>rh\<bar> \<le> EPS10 then phi0 P
                                               else arcsin (cosz * sinb1 Q
                                                      + y xy * sinz * cosb1 Q / rh))\<rparr>;
                            xy = xy\<lparr>x := x xy * (sinz * cosb1 Q)\<rparr>;
                            xy = xy\<lparr>y := (cosz - sin (phi lp) * sinb1 Q) * rh\<rparr>
                        in (lp, xy))
                   | N_POLE \<Rightarrow>
                       (let xy = xy\<lparr>y := - y xy\<rparr>;
                            lp = lp\<lparr>phi := M_HALFPI K - phi lp\<rparr>
                        in (lp, xy))
                   | S_POLE \<Rightarrow> (lp\<lparr>phi := phi lp - M_HALFPI K\<rparr>, xy));
                lp = lp\<lparr>lam := (if y xy = 0 \<and> (mode Q = EQUIT \<or> mode Q = OBLIQ) then 0
                                 else atan2 (x xy) (y xy))\<rparr>
            in (lp, P)))"

subsection \<open>Setup\<close>

text \<open>The block that \<open>calloc\<close> returns: every member is zero, the pointer is null.\<close>

definition calloc_pj_laea_data :: pj_laea_data where
  "calloc_pj_laea_data =
     \<lparr>sinb1 = 0, cosb1 = 0, xmf = 0, ymf = 0, mmf = 0, qp = 0, dd = 0, rq = 0,
      apa = None, mode = N_POLE\<rparr>"

text \<open>
  The ellipsoidal branch of the setup routine, after the coefficients were obtained.
\<close>

definition laea_setup_ellipsoidal :: "authalic \<Rightarrow> PJ \<Rightarrow> pj_laea_data \<Rightarrow> pj_laea_data" where
  "laea_setup_ellipsoidal H P Q =
     (case mode Q of
        N_POLE \<Rightarrow> Q\<lparr>dd := 1\<rparr>
      | S_POLE \<Rightarrow> Q\<lparr>dd := 1\<rparr>
      | EQUIT \<Rightarrow>
          (let Q = Q\<lparr>rq := sqrt ((1 / 2) * qp Q)\<rparr>;
               Q = Q\<lparr>dd := 1 / rq Q\<rparr>;
               Q = Q\<lparr>xmf := 1\<rparr>
           in Q\<lparr>ymf := (1 / 2) * qp Q\<rparr>)
      | OBLIQ \<Rightarrow>
          (let Q = Q\<lparr>rq := sqrt ((1 / 2) * qp Q)\<rparr>;
               sinphi = sin (phi0 P);
               cosphi = cos (phi0 P);
               b1 = pj_authalic_lat H (phi0 P) sinphi cosphi (apa Q)
                      (ellipsoid.truncate P) (qp Q);
               Q = Q\<lparr>sinb1 := sin b1\<rparr>;
               Q = Q\<lparr>cosb1 := cos b1\<rparr>;
               Q = Q\<lparr>dd := cos (phi0 P)
                             / (sqrt (1 - es P * sinphi * sinphi) * rq Q * cosb1 Q)\<rparr>;
               Q = Q\<lparr>xmf := rq Q\<rparr>;
               Q = Q\<lparr>ymf := xmf Q / dd Q\<rparr>
           in Q\<lparr>xmf := xmf Q * dd Q\<rparr>))"

text \<open>
  The setup routine. \<open>calloc_ok\<close> tells whether the allocation of the state block
  succeeds. \<open>P->opaque\<close> points to \<open>Q\<close> from the second statement on; the model writes
  the block into \<open>opaque\<close> wherever the instance leaves the routine.
\<close>

definition PJ_PROJECTION_laea ::
    "proj_macros \<Rightarrow> authalic \<Rightarrow> bool \<Rightarrow> PJ \<Rightarrow> proj_err + PJ" where
  "PJ_PROJECTION_laea K H calloc_ok P =
     (if \<not> calloc_ok then pj_default_destructor P PROJ_ERR_OTHER
      else
        (let Q = calloc_pj_laea_data;
             P = P\<lparr>opaque := Some Q\<rparr>;
             P = P\<lparr>destructor := Some Pj_laea_destructor\<rparr>;
             t = \<bar>phi0 P\<bar>
         in if t > M_HALFPI_plus_EPS10 K then
              pj_laea_destructor P PROJ_ERR_INVALID_OP_ILLEGAL_ARG_VALUE
            else
              (let Q = (if \<bar>t - M_HALFPI K\<bar> < EPS10 then
                          Q\<lparr>mode := (if phi0 P < 0 then S_POLE else N_POLE)\<rparr>
                        else if \<bar>t\<bar> < EPS10 then Q\<lparr>mode := EQUIT\<rparr>
                        else Q\<lparr>mode := OBLIQ\<rparr>)
               in if es P \<noteq> 0 then
                    (let P = P\<lparr>e := sqrt (es P)\<rparr>;
                         Q = Q\<lparr>qp := pj_authalic_lat_q H 1 (ellipsoid.truncate P)\<rparr>;
                         Q = Q\<lparr>mmf := (1 / 2) / (1 - es P)\<rparr>;
                         Q = Q\<lparr>apa := pj_authalic_lat_compute_coeffs H (n P)\<rparr>
                     in if apa Q = None then
                          pj_laea_destructor (P\<lparr>opaque := Some Q\<rparr>) PROJ_ERR_OTHER
                        else
                          (let Q = laea_setup_ellipsoidal H P Q;
                               P = P\<lparr>opaque := Some Q\<rparr>;
                               P = P\<lparr>inv_pj := Some Laea_e_inverse\<rparr>;
                               P = P\<lparr>fwd := Some Laea_e_forward\<rparr>
                           in Inr P))
                  else
                    (let Q = (if mode Q = OBLIQ then
                                (let Q = Q\<lparr>sinb1 := sin (phi0 P)\<rparr>
                                 in Q\<lparr>cosb1 := cos (phi0 P)\<rparr>)
                              else Q);
                         P = P\<lparr>opaque := Some Q\<rparr>;
                         P = P\<lparr>inv_pj := Some Laea_s_inverse\<rparr>;
                         P = P\<lparr>fwd := Some Laea_s_forward\<rparr>
                     in Inr P))))"

text \<open>The calls \<open>P->fwd (lp, P)\<close> and \<open>P->inv (xy, P)\<close> through the bound pointers.\<close>

definition call_fwd ::
    "proj_macros \<Rightarrow> authalic \<Rightarrow> pj_fwd_fn \<Rightarrow> PJ_LP \<Rightarrow> PJ \<Rightarrow> pj_laea_data \<Rightarrow> PJ_XY \<times> PJ" where
  "call_fwd K H f lp P Q =
     (case f of
        Laea_e_forward \<Rightarrow> laea_e_forward K H lp P Q
      | Laea_s_forward \<Rightarrow> laea_s_forward K lp P Q)"

definition call_inv ::
    "proj_macros \<Rightarrow> authalic \<Rightarrow> pj_inv_fn \<Rightarrow> PJ_XY \<Rightarrow> PJ \<Rightarrow> pj_laea_data \<Rightarrow> PJ_LP \<times> PJ" where
  "call_inv K H f xy P Q =
     (case f of
        Laea_e_inverse \<Rightarrow> laea_e_inverse H xy P Q
      | Laea_s_inverse \<Rightarrow> laea_s_inverse K xy P Q)"

subsection \<open>The lifetime of an instance\<close>

text \<open>
  \<open>lifetime K H P0 P\<close>: the instance \<open>P0\<close>, as the setup routine returned it, has become
  \<open>P\<close> after any number of calls of its bound forward and inverse kernels.
\<close>

inductive lifetime :: "proj_macros \<Rightarrow> authalic \<Rightarrow> PJ \<Rightarrow> PJ \<Rightarrow> bool"
  for K :: proj_macros and H :: authalic and P0 :: PJ where
  lifetime_setup: "lifetime K H P0 P0"
| lifetime_fwd:
    "lifetime K H P0 P \<Longrightarrow> opaque P = Some Q \<Longrightarrow> fwd P = Some f
       \<Longrightarrow> lifetime K H P0 (snd (call_fwd K H f lp P Q))"
| lifetime_inv:
    "lifetime K H P0 P \<Longrightarrow> opaque P = Some Q \<Longrightarrow> inv_pj P = Some g
       \<Longrightarrow> lifetime K H P0 (snd (call_inv K H g xy P Q))"

subsection \<open>Example instances\<close>

text \<open>
  The constants read as the exact angles with the exact sum, and as the doubles of the
  compiled code: \<open>0x3FF921FB54442D18\<close> and \<open>0x3FE921FB54442D18\<close>, the doubles nearest to
  the two angles, and \<open>0x3FF921FB544B0C50\<close>, the double sum of the first and \<open>1e-10\<close>,
  which is \<open>1.5707963268948966\<close>.
\<close>

definition exact_macros :: proj_macros where
  "exact_macros =
     \<lparr>M_HALFPI = pi / 2, M_FORTPI = pi / 4, M_HALFPI_plus_EPS10 = pi / 2 + EPS10\<rparr>"

definition double_macros :: proj_macros where
  "double_macros =
     \<lparr>M_HALFPI = 884279719003555 / 2 ^ 49, M_FORTPI = 884279719003555 / 2 ^ 50,
      M_HALFPI_plus_EPS10 = 442139859529925 / 2 ^ 48\<rparr>"

text \<open>
  The helper in the limit of vanishing flattening: the authalic latitude is the geodetic
  latitude, \<open>q\<close> is twice the sine of the latitude, and the coefficient block is
  allocated.
\<close>

definition authalic_sphere :: authalic where
  "authalic_sphere =
     \<lparr>pj_authalic_lat = (\<lambda>v sinphi cosphi APA E qpole. v),
      pj_authalic_lat_inverse = (\<lambda>beta APA E qpole. beta),
      pj_authalic_lat_q = (\<lambda>sinphi E. 2 * sinphi),
      pj_authalic_lat_compute_coeffs = (\<lambda>third_flattening. Some [])\<rparr>"

text \<open>An instance as the caller hands it to the setup routine.\<close>

definition PJ_init :: "real \<Rightarrow> real \<Rightarrow> PJ" where
  "PJ_init lat_0 es_0 =
     \<lparr>es = es_0, e = 0, n = 0, phi0 = lat_0, opaque = None, destructor = None,
      fwd = None, inv_pj = None, last_errno = None\<rparr>"

text \<open>
  Instances as the setup routine returns them for \<open>authalic_sphere\<close> and \<open>exact_macros\<close>:
  on the sphere with centre latitudes \<open>5e-11\<close>, \<open>pi / 2\<close>, \<open>- pi / 2\<close> and \<open>pi / 4\<close>,
  and on an ellipsoid with \<open>es = 1 / 150\<close> and centre latitudes \<open>pi / 2\<close> and \<open>0\<close>.
\<close>

definition equit_sphere_Q :: pj_laea_data where
  "equit_sphere_Q = calloc_pj_laea_data\<lparr>mode := EQUIT\<rparr>"

definition equit_sphere_P :: PJ where
  "equit_sphere_P =
     (PJ_init (1 / (2 * 10 ^ 10)) 0)
       \<lparr>opaque := Some equit_sphere_Q, destructor := Some Pj_laea_destructor,
        fwd := Some Laea_s_forward, inv_pj := Some Laea_s_inverse\<rparr>"

definition north_sphere_Q :: pj_laea_data where
  "north_sphere_Q = calloc_pj_laea_data\<lparr>mode := N_POLE\<rparr>"

definition north_sphere_P :: PJ where
  "north_sphere_P =
     (PJ_init (pi / 2) 0)
       \<lparr>opaque := Some north_sphere_Q, destructor := Some Pj_laea_destructor,
        fwd := Some Laea_s_forward, inv_pj := Some Laea_s_inverse\<rparr>"

definition north_ellps_Q :: pj_laea_data where
  "north_ellps_Q =
     calloc_pj_laea_data
       \<lparr>mode := N_POLE, qp := 2, mmf := (1 / 2) / (1 - 1 / 150), apa := Some [], dd := 1\<rparr>"

definition north_ellps_P :: PJ where
  "north_ellps_P =
     (PJ_init (pi / 2) (1 / 150))
       \<lparr>e := sqrt (1 / 150), opaque := Some north_ellps_Q,
        destructor := Some Pj_laea_destructor,
        fwd := Some Laea_e_forward, inv_pj := Some Laea_e_inverse\<rparr>"

definition equit_ellps_Q :: pj_laea_data where
  "equit_ellps_Q =
     calloc_pj_laea_data
       \<lparr>mode := EQUIT, qp := 2, mmf := (1 / 2) / (1 - 1 / 150), apa := Some [],
        rq := 1, dd := 1, xmf := 1, ymf := 1\<rparr>"

definition equit_ellps_P :: PJ where
  "equit_ellps_P =
     (PJ_init 0 (1 / 150))
       \<lparr>e := sqrt (1 / 150), opaque := Some equit_ellps_Q,
        destructor := Some Pj_laea_destructor,
        fwd := Some Laea_e_forward, inv_pj := Some Laea_e_inverse\<rparr>"

definition south_sphere_Q :: pj_laea_data where
  "south_sphere_Q = calloc_pj_laea_data\<lparr>mode := S_POLE\<rparr>"

definition south_sphere_P :: PJ where
  "south_sphere_P =
     (PJ_init (- (pi / 2)) 0)
       \<lparr>opaque := Some south_sphere_Q, destructor := Some Pj_laea_destructor,
        fwd := Some Laea_s_forward, inv_pj := Some Laea_s_inverse\<rparr>"

definition obliq_sphere_Q :: pj_laea_data where
  "obliq_sphere_Q =
     calloc_pj_laea_data\<lparr>mode := OBLIQ, sinb1 := sin (pi / 4), cosb1 := cos (pi / 4)\<rparr>"

definition obliq_sphere_P :: PJ where
  "obliq_sphere_P =
     (PJ_init (pi / 4) 0)
       \<lparr>opaque := Some obliq_sphere_Q, destructor := Some Pj_laea_destructor,
        fwd := Some Laea_s_forward, inv_pj := Some Laea_s_inverse\<rparr>"

text \<open>
  The instances that the setup routine returns for \<open>double_macros\<close> on the sphere when the
  centre latitude is the double \<open>M_HALFPI\<close> itself, and when it is the greatest double
  that the routine accepts, \<open>1.5707963268948966\<close>.
\<close>

definition double_north_Q :: pj_laea_data where
  "double_north_Q = calloc_pj_laea_data\<lparr>mode := N_POLE\<rparr>"

definition double_north_P :: PJ where
  "double_north_P =
     (PJ_init (884279719003555 / 2 ^ 49) 0)
       \<lparr>opaque := Some double_north_Q, destructor := Some Pj_laea_destructor,
        fwd := Some Laea_s_forward, inv_pj := Some Laea_s_inverse\<rparr>"

definition double_edge_Q :: pj_laea_data where
  "double_edge_Q =
     calloc_pj_laea_data
       \<lparr>mode := OBLIQ, sinb1 := sin (442139859529925 / 2 ^ 48),
        cosb1 := cos (442139859529925 / 2 ^ 48)\<rparr>"

definition double_edge_P :: PJ where
  "double_edge_P =
     (PJ_init (442139859529925 / 2 ^ 48) 0)
       \<lparr>opaque := Some double_edge_Q, destructor := Some Pj_laea_destructor,
        fwd := Some Laea_s_forward, inv_pj := Some Laea_s_inverse\<rparr>"

section \<open>Properties\<close>

subsection \<open>Auxiliary facts\<close>









lemma EPS10_pos: "0 < EPS10"
  by (simp add: EPS10_def)










text \<open>A kernel leaves the instance as it is, or writes the domain error into its slot.\<close>

lemma laea_e_forward_instance:
  "snd (laea_e_forward K H lp P Q) = P \<or>
   snd (laea_e_forward K H lp P Q)
     = proj_errno_set P PROJ_ERR_COORD_TRANSFM_OUTSIDE_PROJECTION_DOMAIN"
  by (cases "mode Q")
     (simp_all add: laea_e_forward_def laea_e_forward_polar_def Let_def)

lemma laea_s_forward_instance:
  "snd (laea_s_forward K lp P Q) = P \<or>
   snd (laea_s_forward K lp P Q)
     = proj_errno_set P PROJ_ERR_COORD_TRANSFM_OUTSIDE_PROJECTION_DOMAIN"
  by (cases "mode Q")
     (simp_all add: laea_s_forward_def laea_s_forward_oblcon_def laea_s_forward_polar_def
        Let_def)

lemma laea_e_inverse_instance:
  "snd (laea_e_inverse H xy P Q) = P \<or>
   snd (laea_e_inverse H xy P Q)
     = proj_errno_set P PROJ_ERR_COORD_TRANSFM_OUTSIDE_PROJECTION_DOMAIN"
  by (cases "mode Q")
     (simp_all add: laea_e_inverse_def laea_e_inverse_oblique_def laea_e_inverse_polar_def
        laea_e_inverse_tail_def Let_def)

lemma laea_s_inverse_instance:
  "snd (laea_s_inverse K xy P Q) = P \<or>
   snd (laea_s_inverse K xy P Q)
     = proj_errno_set P PROJ_ERR_COORD_TRANSFM_OUTSIDE_PROJECTION_DOMAIN"
  by (cases "mode Q") (simp_all add: laea_s_inverse_def Let_def)

lemma call_fwd_instance:
  "snd (call_fwd K H f lp P Q) = P \<or>
   snd (call_fwd K H f lp P Q)
     = proj_errno_set P PROJ_ERR_COORD_TRANSFM_OUTSIDE_PROJECTION_DOMAIN"
  using laea_e_forward_instance [of K H lp P Q] laea_s_forward_instance [of K lp P Q]
  by (cases f) (simp_all add: call_fwd_def)

lemma call_inv_instance:
  "snd (call_inv K H g xy P Q) = P \<or>
   snd (call_inv K H g xy P Q)
     = proj_errno_set P PROJ_ERR_COORD_TRANSFM_OUTSIDE_PROJECTION_DOMAIN"
  using laea_e_inverse_instance [of H xy P Q] laea_s_inverse_instance [of K xy P Q]
  by (cases g) (simp_all add: call_inv_def)

text \<open>No call changes the state block or the bound kernels.\<close>

lemma lifetime_opaque:
  "lifetime K H P0 P \<Longrightarrow> opaque P = opaque P0 \<and> fwd P = fwd P0 \<and> inv_pj P = inv_pj P0"
proof (induction rule: lifetime.induct)
  case lifetime_setup
  show ?case by simp
next
  case (lifetime_fwd P Q f lp)
  from call_fwd_instance [of K H f lp P Q] lifetime_fwd.IH show ?case
    by (auto simp: proj_errno_set_def)
next
  case (lifetime_inv P Q g xy)
  from call_inv_instance [of K H g xy P Q] lifetime_inv.IH show ?case
    by (auto simp: proj_errno_set_def)
qed

text \<open>What a successful setup has stored.\<close>

lemma setup_mode:
  assumes "PJ_PROJECTION_laea K H calloc_ok P = Inr P0"
  shows "\<exists>Q. opaque P0 = Some Q \<and>
           mode Q = (if \<bar>\<bar>phi0 P\<bar> - M_HALFPI K\<bar> < EPS10
                     then (if phi0 P < 0 then S_POLE else N_POLE)
                     else if \<bar>phi0 P\<bar> < EPS10 then EQUIT else OBLIQ)"
  using assms
  by (auto simp: PJ_PROJECTION_laea_def pj_default_destructor_def pj_laea_destructor_def
      laea_setup_ellipsoidal_def calloc_pj_laea_data_def Let_def
      split: if_splits Mode.splits)

lemma setup_apa:
  assumes "PJ_PROJECTION_laea K H calloc_ok P = Inr P0"
  shows "\<exists>Q. opaque P0 = Some Q \<and> (apa Q \<noteq> None \<longleftrightarrow> es P \<noteq> 0)"
  using assms
  by (auto simp: PJ_PROJECTION_laea_def pj_default_destructor_def pj_laea_destructor_def
      laea_setup_ellipsoidal_def calloc_pj_laea_data_def Let_def
      split: if_splits Mode.splits)

text \<open>The example instances are results of the setup routine.\<close>

lemma setup_equit_sphere:
  "PJ_PROJECTION_laea exact_macros authalic_sphere True (PJ_init (1 / (2 * 10 ^ 10)) 0)
     = Inr equit_sphere_P"
  using pi_ge_two
  by (simp add: PJ_PROJECTION_laea_def PJ_init_def exact_macros_def EPS10_def
      calloc_pj_laea_data_def equit_sphere_P_def equit_sphere_Q_def Let_def)

lemma setup_north_sphere:
  "PJ_PROJECTION_laea exact_macros authalic_sphere True (PJ_init (pi / 2) 0)
     = Inr north_sphere_P"
  by (simp add: PJ_PROJECTION_laea_def PJ_init_def exact_macros_def EPS10_def
      calloc_pj_laea_data_def north_sphere_P_def north_sphere_Q_def Let_def)

lemma setup_south_sphere:
  "PJ_PROJECTION_laea exact_macros authalic_sphere True (PJ_init (- (pi / 2)) 0)
     = Inr south_sphere_P"
  by (simp add: PJ_PROJECTION_laea_def PJ_init_def exact_macros_def EPS10_def
      calloc_pj_laea_data_def south_sphere_P_def south_sphere_Q_def Let_def)

lemma setup_obliq_sphere:
  "PJ_PROJECTION_laea exact_macros authalic_sphere True (PJ_init (pi / 4) 0)
     = Inr obliq_sphere_P"
  using pi_ge_two
  by (simp add: PJ_PROJECTION_laea_def PJ_init_def exact_macros_def EPS10_def
      calloc_pj_laea_data_def obliq_sphere_P_def obliq_sphere_Q_def Let_def)

lemma setup_north_ellps:
  "PJ_PROJECTION_laea exact_macros authalic_sphere True (PJ_init (pi / 2) (1 / 150))
     = Inr north_ellps_P"
  by (simp add: PJ_PROJECTION_laea_def PJ_init_def exact_macros_def EPS10_def
      calloc_pj_laea_data_def north_ellps_P_def north_ellps_Q_def Let_def
      laea_setup_ellipsoidal_def authalic_sphere_def ellipsoid.defs)

lemma setup_equit_ellps:
  "PJ_PROJECTION_laea exact_macros authalic_sphere True (PJ_init 0 (1 / 150))
     = Inr equit_ellps_P"
  using pi_ge_two
  by (simp add: PJ_PROJECTION_laea_def PJ_init_def exact_macros_def EPS10_def
      calloc_pj_laea_data_def equit_ellps_P_def equit_ellps_Q_def Let_def
      laea_setup_ellipsoidal_def authalic_sphere_def ellipsoid.defs)

lemma setup_double_north:
  "PJ_PROJECTION_laea double_macros authalic_sphere True
     (PJ_init (884279719003555 / 2 ^ 49) 0) = Inr double_north_P"
  by (simp add: PJ_PROJECTION_laea_def PJ_init_def double_macros_def EPS10_def
      calloc_pj_laea_data_def double_north_P_def double_north_Q_def Let_def)

lemma setup_double_edge:
  "PJ_PROJECTION_laea double_macros authalic_sphere True
     (PJ_init (442139859529925 / 2 ^ 48) 0) = Inr double_edge_P"
  by (simp add: PJ_PROJECTION_laea_def PJ_init_def double_macros_def EPS10_def
      calloc_pj_laea_data_def double_edge_P_def double_edge_Q_def Let_def)

subsection \<open>Round trip\<close>



subsection \<open>The aspect mode\<close>

text \<open>
  C5. The mode that a successful setup stores is determined by the centre latitude alone,
  by bands around the constant \<open>M_HALFPI\<close> that stands for 90 degrees, whatever value of
  at least \<open>2 * EPS10\<close> the header gives it: North-Polar for \<open>\<bar>phi0 - M_HALFPI\<bar> < EPS10\<close>,
  South-Polar for \<open>\<bar>phi0 + M_HALFPI\<bar> < EPS10\<close>, Equatorial for \<open>\<bar>phi0\<bar> < EPS10\<close>, Oblique for
  every other accepted latitude; and the stored mode is the same after any number of
  calls of the bound kernels.
\<close>

theorem mode_of_centre_latitude:
  assumes "PJ_PROJECTION_laea K H calloc_ok P = Inr P0" and "lifetime K H P0 P'"
    and "2 * EPS10 \<le> M_HALFPI K"
  shows "\<exists>Q. opaque P' = Some Q \<and>
           (\<bar>phi0 P - M_HALFPI K\<bar> < EPS10 \<longrightarrow> mode Q = N_POLE) \<and>
           (\<bar>phi0 P + M_HALFPI K\<bar> < EPS10 \<longrightarrow> mode Q = S_POLE) \<and>
           (\<bar>phi0 P\<bar> < EPS10 \<longrightarrow> mode Q = EQUIT) \<and>
           (\<not> \<bar>phi0 P - M_HALFPI K\<bar> < EPS10 \<and> \<not> \<bar>phi0 P + M_HALFPI K\<bar> < EPS10
              \<and> \<not> \<bar>phi0 P\<bar> < EPS10 \<longrightarrow> mode Q = OBLIQ)"
proof -
  from setup_mode [OF assms(1)] obtain Q where
    Q: "opaque P0 = Some Q" and
    m: "mode Q = (if \<bar>\<bar>phi0 P\<bar> - M_HALFPI K\<bar> < EPS10
                  then (if phi0 P < 0 then S_POLE else N_POLE)
                  else if \<bar>phi0 P\<bar> < EPS10 then EQUIT else OBLIQ)"
    by blast
  note eps = EPS10_pos assms(3)
  from lifetime_opaque [OF assms(2)] Q have "opaque P' = Some Q"
    by simp
  moreover have "\<bar>phi0 P - M_HALFPI K\<bar> < EPS10 \<longrightarrow> mode Q = N_POLE"
  proof
    assume "\<bar>phi0 P - M_HALFPI K\<bar> < EPS10"
    with eps have "\<bar>\<bar>phi0 P\<bar> - M_HALFPI K\<bar> < EPS10" "\<not> phi0 P < 0"
      by arith+
    with m show "mode Q = N_POLE" by simp
  qed
  moreover have "\<bar>phi0 P + M_HALFPI K\<bar> < EPS10 \<longrightarrow> mode Q = S_POLE"
  proof
    assume "\<bar>phi0 P + M_HALFPI K\<bar> < EPS10"
    with eps have "\<bar>\<bar>phi0 P\<bar> - M_HALFPI K\<bar> < EPS10" "phi0 P < 0"
      by arith+
    with m show "mode Q = S_POLE" by simp
  qed
  moreover have "\<bar>phi0 P\<bar> < EPS10 \<longrightarrow> mode Q = EQUIT"
  proof
    assume a: "\<bar>phi0 P\<bar> < EPS10"
    with eps have "\<not> \<bar>\<bar>phi0 P\<bar> - M_HALFPI K\<bar> < EPS10"
      by arith
    with m a show "mode Q = EQUIT" by simp
  qed
  moreover have "\<not> \<bar>phi0 P - M_HALFPI K\<bar> < EPS10 \<and> \<not> \<bar>phi0 P + M_HALFPI K\<bar> < EPS10
              \<and> \<not> \<bar>phi0 P\<bar> < EPS10 \<longrightarrow> mode Q = OBLIQ"
  proof
    assume a: "\<not> \<bar>phi0 P - M_HALFPI K\<bar> < EPS10 \<and> \<not> \<bar>phi0 P + M_HALFPI K\<bar> < EPS10
              \<and> \<not> \<bar>phi0 P\<bar> < EPS10"
    then have "\<not> \<bar>\<bar>phi0 P\<bar> - M_HALFPI K\<bar> < EPS10"
      by arith
    with m a show "mode Q = OBLIQ" by simp
  qed
  ultimately show ?thesis by blast
qed

theorem mode_of_centre_latitude_witness:
  "PJ_PROJECTION_laea exact_macros authalic_sphere True (PJ_init (pi / 2) 0)
     = Inr north_sphere_P \<and>
   lifetime exact_macros authalic_sphere north_sphere_P
     (snd (call_inv exact_macros authalic_sphere Laea_s_inverse \<lparr>x = 0, y = 3\<rparr>
        (snd (call_fwd exact_macros authalic_sphere Laea_s_forward
                \<lparr>lam = 0, phi = - (pi / 2)\<rparr> north_sphere_P north_sphere_Q))
        north_sphere_Q)) \<and>
   2 * EPS10 \<le> M_HALFPI exact_macros \<and>
   \<bar>phi0 (PJ_init (pi / 2) 0) - M_HALFPI exact_macros\<bar> < EPS10 \<and>
   map_option mode
     (opaque (snd (call_inv exact_macros authalic_sphere Laea_s_inverse \<lparr>x = 0, y = 3\<rparr>
        (snd (call_fwd exact_macros authalic_sphere Laea_s_forward
                \<lparr>lam = 0, phi = - (pi / 2)\<rparr> north_sphere_P north_sphere_Q))
        north_sphere_Q))) = Some N_POLE \<and>
   PJ_PROJECTION_laea exact_macros authalic_sphere True (PJ_init (- (pi / 2)) 0)
     = Inr south_sphere_P \<and>
   \<bar>phi0 (PJ_init (- (pi / 2)) 0) + M_HALFPI exact_macros\<bar> < EPS10 \<and>
   map_option mode (opaque south_sphere_P) = Some S_POLE \<and>
   PJ_PROJECTION_laea exact_macros authalic_sphere True (PJ_init 0 (1 / 150))
     = Inr equit_ellps_P \<and>
   \<bar>phi0 (PJ_init 0 (1 / 150))\<bar> < EPS10 \<and>
   map_option mode (opaque equit_ellps_P) = Some EQUIT \<and>
   PJ_PROJECTION_laea exact_macros authalic_sphere True (PJ_init (pi / 4) 0)
     = Inr obliq_sphere_P \<and>
   \<not> \<bar>phi0 (PJ_init (pi / 4) 0) - M_HALFPI exact_macros\<bar> < EPS10 \<and>
   \<not> \<bar>phi0 (PJ_init (pi / 4) 0) + M_HALFPI exact_macros\<bar> < EPS10 \<and>
   \<not> \<bar>phi0 (PJ_init (pi / 4) 0)\<bar> < EPS10 \<and>
   map_option mode (opaque obliq_sphere_P) = Some OBLIQ \<and>
   PJ_PROJECTION_laea double_macros authalic_sphere True
     (PJ_init (884279719003555 / 2 ^ 49) 0) = Inr double_north_P \<and>
   2 * EPS10 \<le> M_HALFPI double_macros \<and>
   \<bar>phi0 (PJ_init (884279719003555 / 2 ^ 49) 0) - M_HALFPI double_macros\<bar> < EPS10 \<and>
   map_option mode (opaque double_north_P) = Some N_POLE \<and>
   PJ_PROJECTION_laea double_macros authalic_sphere True
     (PJ_init (442139859529925 / 2 ^ 48) 0) = Inr double_edge_P \<and>
   \<not> \<bar>phi0 (PJ_init (442139859529925 / 2 ^ 48) 0) - M_HALFPI double_macros\<bar> < EPS10 \<and>
   \<not> \<bar>phi0 (PJ_init (442139859529925 / 2 ^ 48) 0) + M_HALFPI double_macros\<bar> < EPS10 \<and>
   \<not> \<bar>phi0 (PJ_init (442139859529925 / 2 ^ 48) 0)\<bar> < EPS10 \<and>
   map_option mode (opaque double_edge_P) = Some OBLIQ"
proof -
  let ?P1 = "snd (call_fwd exact_macros authalic_sphere Laea_s_forward
                \<lparr>lam = 0, phi = - (pi / 2)\<rparr> north_sphere_P north_sphere_Q)"
  let ?P2 = "snd (call_inv exact_macros authalic_sphere Laea_s_inverse \<lparr>x = 0, y = 3\<rparr>
                ?P1 north_sphere_Q)"
  have l1: "lifetime exact_macros authalic_sphere north_sphere_P ?P1"
    by (rule lifetime_fwd [OF lifetime_setup]) (simp_all add: north_sphere_P_def)
  have o1: "opaque ?P1 = Some north_sphere_Q" "inv_pj ?P1 = Some Laea_s_inverse"
    using lifetime_opaque [OF l1] by (simp_all add: north_sphere_P_def)
  have l2: "lifetime exact_macros authalic_sphere north_sphere_P ?P2"
    by (rule lifetime_inv [OF l1 o1])
  have k: "2 * EPS10 \<le> M_HALFPI exact_macros" "2 * EPS10 \<le> M_HALFPI double_macros"
    using pi_ge_two by (simp_all add: exact_macros_def double_macros_def EPS10_def)
  have a: "\<bar>phi0 (PJ_init (pi / 2) 0) - M_HALFPI exact_macros\<bar> < EPS10"
    by (simp add: PJ_init_def EPS10_def exact_macros_def)
  have b: "\<bar>phi0 (PJ_init (- (pi / 2)) 0) + M_HALFPI exact_macros\<bar> < EPS10"
    by (simp add: PJ_init_def EPS10_def exact_macros_def)
  have c: "\<bar>phi0 (PJ_init 0 (1 / 150))\<bar> < EPS10"
    by (simp add: PJ_init_def EPS10_def)
  have d: "\<not> \<bar>phi0 (PJ_init (pi / 4) 0) - M_HALFPI exact_macros\<bar> < EPS10"
          "\<not> \<bar>phi0 (PJ_init (pi / 4) 0) + M_HALFPI exact_macros\<bar> < EPS10"
          "\<not> \<bar>phi0 (PJ_init (pi / 4) 0)\<bar> < EPS10"
    using pi_ge_two by (simp_all add: PJ_init_def EPS10_def exact_macros_def)
  have e: "\<bar>phi0 (PJ_init (884279719003555 / 2 ^ 49) 0) - M_HALFPI double_macros\<bar> < EPS10"
    by (simp add: PJ_init_def EPS10_def double_macros_def)
  have g: "\<not> \<bar>phi0 (PJ_init (442139859529925 / 2 ^ 48) 0) - M_HALFPI double_macros\<bar> < EPS10"
          "\<not> \<bar>phi0 (PJ_init (442139859529925 / 2 ^ 48) 0) + M_HALFPI double_macros\<bar> < EPS10"
          "\<not> \<bar>phi0 (PJ_init (442139859529925 / 2 ^ 48) 0)\<bar> < EPS10"
    by (simp_all add: PJ_init_def EPS10_def double_macros_def)
  have n: "map_option mode (opaque ?P2) = Some N_POLE"
    using mode_of_centre_latitude [OF setup_north_sphere l2 k(1)] a by auto
  have s: "map_option mode (opaque south_sphere_P) = Some S_POLE"
    using mode_of_centre_latitude [OF setup_south_sphere lifetime_setup k(1)] b by auto
  have q: "map_option mode (opaque equit_ellps_P) = Some EQUIT"
    using mode_of_centre_latitude [OF setup_equit_ellps lifetime_setup k(1)] c by auto
  have ob: "map_option mode (opaque obliq_sphere_P) = Some OBLIQ"
    using mode_of_centre_latitude [OF setup_obliq_sphere lifetime_setup k(1)] d by auto
  have dn: "map_option mode (opaque double_north_P) = Some N_POLE"
    using mode_of_centre_latitude [OF setup_double_north lifetime_setup k(2)] e by auto
  have de: "map_option mode (opaque double_edge_P) = Some OBLIQ"
    using mode_of_centre_latitude [OF setup_double_edge lifetime_setup k(2)] g by auto
  show ?thesis
    by (intro conjI setup_north_sphere setup_south_sphere setup_equit_ellps
        setup_obliq_sphere setup_double_north setup_double_edge l2 k a b c d e g n s q ob
        dn de)
qed

subsection \<open>Results returned with a domain error\<close>

text \<open>
  C2 (as amended). Each kernel signals the outside-projection-domain error exactly under
  its guard, and where the guard does not hold it leaves the instance as it is. With the
  error the ellipsoidal forward kernel (guard \<open>\<bar>b\<bar> < EPS10\<close>, in all four modes), the
  ellipsoidal inverse kernel (Equatorial or Oblique mode, \<open>rho\<close> not below \<open>EPS10\<close> and
  \<open>0.5 * rho / rq\<close> above 1) and the spherical forward kernel in the polar modes (guard
  \<open>\<bar>phi + phi0\<bar> < EPS10\<close>) return the zero pair. The spherical forward kernel in Equatorial
  or Oblique mode returns \<open>x = 0\<close> and in \<open>y\<close> the tested quantity itself,
  \<open>1 + cos phi * cos lam\<close> or \<open>1 + sinb1 * sin phi + cosb1 * cos phi * cos lam\<close>, which is at
  most \<open>EPS10\<close>; the spherical inverse kernel returns \<open>lam = 0\<close> and in \<open>phi\<close> half the
  distance \<open>hypot x y\<close>, which exceeds 1.
\<close>

theorem domain_error_result_pair:
  "(let xi = pj_authalic_lat H (phi lp) (sin (phi lp)) (cos (phi lp)) (apa Q)
               (ellipsoid.truncate P) (qp Q);
        b = (if mode Q = OBLIQ then 1 + sinb1 Q * sin xi + cosb1 Q * cos xi * cos (lam lp)
             else if mode Q = EQUIT then 1 + cos xi * cos (lam lp)
             else if mode Q = N_POLE then M_HALFPI K + phi lp
             else phi lp - M_HALFPI K)
    in if \<bar>b\<bar> < EPS10
       then laea_e_forward K H lp P Q
              = (\<lparr>x = 0, y = 0\<rparr>,
                 proj_errno_set P PROJ_ERR_COORD_TRANSFM_OUTSIDE_PROJECTION_DOMAIN)
       else snd (laea_e_forward K H lp P Q) = P) \<and>
   (let rho = hypot (x xy / dd Q) (y xy * dd Q)
    in if (mode Q = EQUIT \<or> mode Q = OBLIQ) \<and> \<not> rho < EPS10 \<and> 1 < (1 / 2) * rho / rq Q
       then laea_e_inverse H xy P Q
              = (\<lparr>lam = 0, phi = 0\<rparr>,
                 proj_errno_set P PROJ_ERR_COORD_TRANSFM_OUTSIDE_PROJECTION_DOMAIN)
       else snd (laea_e_inverse H xy P Q) = P) \<and>
   (if mode Q = N_POLE \<or> mode Q = S_POLE
    then if \<bar>phi lp + phi0 P\<bar> < EPS10
         then laea_s_forward K lp P Q
                = (\<lparr>x = 0, y = 0\<rparr>,
                   proj_errno_set P PROJ_ERR_COORD_TRANSFM_OUTSIDE_PROJECTION_DOMAIN)
         else snd (laea_s_forward K lp P Q) = P
    else let t = (if mode Q = EQUIT then 1 + cos (phi lp) * cos (lam lp)
                  else 1 + sinb1 Q * sin (phi lp) + cosb1 Q * cos (phi lp) * cos (lam lp))
         in if t \<le> EPS10
            then laea_s_forward K lp P Q
                   = (\<lparr>x = 0, y = t\<rparr>,
                      proj_errno_set P PROJ_ERR_COORD_TRANSFM_OUTSIDE_PROJECTION_DOMAIN)
            else snd (laea_s_forward K lp P Q) = P) \<and>
   (let h = hypot (x xy) (y xy) * (1 / 2)
    in if 1 < h
       then laea_s_inverse K xy P Q
              = (\<lparr>lam = 0, phi = h\<rparr>,
                 proj_errno_set P PROJ_ERR_COORD_TRANSFM_OUTSIDE_PROJECTION_DOMAIN)
       else snd (laea_s_inverse K xy P Q) = P)"
proof (intro conjI)
  show "let xi = pj_authalic_lat H (phi lp) (sin (phi lp)) (cos (phi lp)) (apa Q)
               (ellipsoid.truncate P) (qp Q);
        b = (if mode Q = OBLIQ then 1 + sinb1 Q * sin xi + cosb1 Q * cos xi * cos (lam lp)
             else if mode Q = EQUIT then 1 + cos xi * cos (lam lp)
             else if mode Q = N_POLE then M_HALFPI K + phi lp
             else phi lp - M_HALFPI K)
    in if \<bar>b\<bar> < EPS10
       then laea_e_forward K H lp P Q
              = (\<lparr>x = 0, y = 0\<rparr>,
                 proj_errno_set P PROJ_ERR_COORD_TRANSFM_OUTSIDE_PROJECTION_DOMAIN)
       else snd (laea_e_forward K H lp P Q) = P"
    by (cases "mode Q")
       (simp_all add: laea_e_forward_def laea_e_forward_polar_def Let_def)
  show "let rho = hypot (x xy / dd Q) (y xy * dd Q)
    in if (mode Q = EQUIT \<or> mode Q = OBLIQ) \<and> \<not> rho < EPS10 \<and> 1 < (1 / 2) * rho / rq Q
       then laea_e_inverse H xy P Q
              = (\<lparr>lam = 0, phi = 0\<rparr>,
                 proj_errno_set P PROJ_ERR_COORD_TRANSFM_OUTSIDE_PROJECTION_DOMAIN)
       else snd (laea_e_inverse H xy P Q) = P"
    by (cases "mode Q")
       (simp_all add: laea_e_inverse_def laea_e_inverse_oblique_def laea_e_inverse_polar_def
          laea_e_inverse_tail_def Let_def)
  show "if mode Q = N_POLE \<or> mode Q = S_POLE
    then if \<bar>phi lp + phi0 P\<bar> < EPS10
         then laea_s_forward K lp P Q
                = (\<lparr>x = 0, y = 0\<rparr>,
                   proj_errno_set P PROJ_ERR_COORD_TRANSFM_OUTSIDE_PROJECTION_DOMAIN)
         else snd (laea_s_forward K lp P Q) = P
    else let t = (if mode Q = EQUIT then 1 + cos (phi lp) * cos (lam lp)
                  else 1 + sinb1 Q * sin (phi lp) + cosb1 Q * cos (phi lp) * cos (lam lp))
         in if t \<le> EPS10
            then laea_s_forward K lp P Q
                   = (\<lparr>x = 0, y = t\<rparr>,
                      proj_errno_set P PROJ_ERR_COORD_TRANSFM_OUTSIDE_PROJECTION_DOMAIN)
            else snd (laea_s_forward K lp P Q) = P"
    by (cases "mode Q")
       (simp_all add: laea_s_forward_def laea_s_forward_oblcon_def laea_s_forward_polar_def
          Let_def)
  show "let h = hypot (x xy) (y xy) * (1 / 2)
    in if 1 < h
       then laea_s_inverse K xy P Q
              = (\<lparr>lam = 0, phi = h\<rparr>,
                 proj_errno_set P PROJ_ERR_COORD_TRANSFM_OUTSIDE_PROJECTION_DOMAIN)
       else snd (laea_s_inverse K xy P Q) = P"
    by (cases "mode Q") (simp_all add: laea_s_inverse_def Let_def)
qed

theorem domain_error_result_pair_witness:
  "laea_e_forward exact_macros authalic_sphere \<lparr>lam = 0, phi = - (pi / 2)\<rparr>
       north_ellps_P north_ellps_Q
     = (\<lparr>x = 0, y = 0\<rparr>,
        proj_errno_set north_ellps_P PROJ_ERR_COORD_TRANSFM_OUTSIDE_PROJECTION_DOMAIN) \<and>
   laea_e_inverse authalic_sphere \<lparr>x = 3, y = 0\<rparr> equit_ellps_P equit_ellps_Q
     = (\<lparr>lam = 0, phi = 0\<rparr>,
        proj_errno_set equit_ellps_P PROJ_ERR_COORD_TRANSFM_OUTSIDE_PROJECTION_DOMAIN) \<and>
   laea_s_forward exact_macros \<lparr>lam = 0, phi = - (pi / 2)\<rparr> north_sphere_P north_sphere_Q
     = (\<lparr>x = 0, y = 0\<rparr>,
        proj_errno_set north_sphere_P PROJ_ERR_COORD_TRANSFM_OUTSIDE_PROJECTION_DOMAIN) \<and>
   laea_s_forward exact_macros \<lparr>lam = arccos (1 / (2 * 10 ^ 10) - 1), phi = 0\<rparr>
       equit_sphere_P equit_sphere_Q
     = (\<lparr>x = 0, y = 1 / (2 * 10 ^ 10)\<rparr>,
        proj_errno_set equit_sphere_P PROJ_ERR_COORD_TRANSFM_OUTSIDE_PROJECTION_DOMAIN) \<and>
   laea_s_inverse exact_macros \<lparr>x = 0, y = 3\<rparr> north_sphere_P north_sphere_Q
     = (\<lparr>lam = 0, phi = 3 / 2\<rparr>,
        proj_errno_set north_sphere_P PROJ_ERR_COORD_TRANSFM_OUTSIDE_PROJECTION_DOMAIN) \<and>
   snd (laea_s_inverse exact_macros \<lparr>x = 0, y = 1\<rparr> north_sphere_P north_sphere_Q)
     = north_sphere_P"
proof -
  have ef: "laea_e_forward exact_macros authalic_sphere \<lparr>lam = 0, phi = - (pi / 2)\<rparr>
       north_ellps_P north_ellps_Q
     = (\<lparr>x = 0, y = 0\<rparr>,
        proj_errno_set north_ellps_P PROJ_ERR_COORD_TRANSFM_OUTSIDE_PROJECTION_DOMAIN)"
    using domain_error_result_pair [where K = exact_macros and H = authalic_sphere
        and lp = "\<lparr>lam = 0, phi = - (pi / 2)\<rparr>" and P = north_ellps_P and Q = north_ellps_Q]
    by (simp add: north_ellps_Q_def calloc_pj_laea_data_def exact_macros_def EPS10_def
        Let_def)
  have ei: "laea_e_inverse authalic_sphere \<lparr>x = 3, y = 0\<rparr> equit_ellps_P equit_ellps_Q
     = (\<lparr>lam = 0, phi = 0\<rparr>,
        proj_errno_set equit_ellps_P PROJ_ERR_COORD_TRANSFM_OUTSIDE_PROJECTION_DOMAIN)"
    using domain_error_result_pair [where H = authalic_sphere and xy = "\<lparr>x = 3, y = 0\<rparr>"
        and P = equit_ellps_P and Q = equit_ellps_Q]
    by (simp add: equit_ellps_Q_def calloc_pj_laea_data_def hypot_def EPS10_def Let_def)
  have sp: "laea_s_forward exact_macros \<lparr>lam = 0, phi = - (pi / 2)\<rparr>
              north_sphere_P north_sphere_Q
     = (\<lparr>x = 0, y = 0\<rparr>,
        proj_errno_set north_sphere_P PROJ_ERR_COORD_TRANSFM_OUTSIDE_PROJECTION_DOMAIN)"
    using domain_error_result_pair [where K = exact_macros
        and lp = "\<lparr>lam = 0, phi = - (pi / 2)\<rparr>" and P = north_sphere_P
        and Q = north_sphere_Q]
    by (simp add: north_sphere_Q_def north_sphere_P_def PJ_init_def calloc_pj_laea_data_def
        EPS10_def Let_def)
  have sq: "laea_s_forward exact_macros \<lparr>lam = arccos (1 / (2 * 10 ^ 10) - 1), phi = 0\<rparr>
       equit_sphere_P equit_sphere_Q
     = (\<lparr>x = 0, y = 1 / (2 * 10 ^ 10)\<rparr>,
        proj_errno_set equit_sphere_P PROJ_ERR_COORD_TRANSFM_OUTSIDE_PROJECTION_DOMAIN)"
    using domain_error_result_pair [where K = exact_macros
        and lp = "\<lparr>lam = arccos (1 / (2 * 10 ^ 10) - 1), phi = 0\<rparr>" and P = equit_sphere_P
        and Q = equit_sphere_Q]
    by (simp add: equit_sphere_Q_def calloc_pj_laea_data_def EPS10_def Let_def)
  have si: "laea_s_inverse exact_macros \<lparr>x = 0, y = 3\<rparr> north_sphere_P north_sphere_Q
     = (\<lparr>lam = 0, phi = 3 / 2\<rparr>,
        proj_errno_set north_sphere_P PROJ_ERR_COORD_TRANSFM_OUTSIDE_PROJECTION_DOMAIN)"
    using domain_error_result_pair [where K = exact_macros and xy = "\<lparr>x = 0, y = 3\<rparr>"
        and P = north_sphere_P and Q = north_sphere_Q]
    by (simp add: hypot_def Let_def)
  have sn: "snd (laea_s_inverse exact_macros \<lparr>x = 0, y = 1\<rparr> north_sphere_P north_sphere_Q)
     = north_sphere_P"
    using domain_error_result_pair [where K = exact_macros and xy = "\<lparr>x = 0, y = 1\<rparr>"
        and P = north_sphere_P and Q = north_sphere_Q]
    by (simp add: hypot_def Let_def)
  show ?thesis
    by (intro conjI ef ei sp sq si sn)
qed

text \<open>
  C2 as stated fails: the spherical inverse kernel of the Equatorial instance, applied to
  \<open>(3, 0)\<close>, signals the error and returns \<open>(0, 3 / 2)\<close>.
\<close>

theorem laea_s_inverse_error_pair_not_zero:
  "PJ_PROJECTION_laea exact_macros authalic_sphere True (PJ_init (1 / (2 * 10 ^ 10)) 0)
     = Inr equit_sphere_P \<and>
   opaque equit_sphere_P = Some equit_sphere_Q \<and>
   inv_pj equit_sphere_P = Some Laea_s_inverse \<and>
   last_errno equit_sphere_P = None \<and>
   last_errno (snd (laea_s_inverse exact_macros \<lparr>x = 3, y = 0\<rparr>
                      equit_sphere_P equit_sphere_Q))
     = Some PROJ_ERR_COORD_TRANSFM_OUTSIDE_PROJECTION_DOMAIN \<and>
   fst (laea_s_inverse exact_macros \<lparr>x = 3, y = 0\<rparr> equit_sphere_P equit_sphere_Q)
     = \<lparr>lam = 0, phi = 3 / 2\<rparr> \<and>
   fst (laea_s_inverse exact_macros \<lparr>x = 3, y = 0\<rparr> equit_sphere_P equit_sphere_Q)
     \<noteq> \<lparr>lam = 0, phi = 0\<rparr>"
proof -
  have "laea_s_inverse exact_macros \<lparr>x = 3, y = 0\<rparr> equit_sphere_P equit_sphere_Q
          = (\<lparr>lam = 0, phi = 3 / 2\<rparr>,
             proj_errno_set equit_sphere_P PROJ_ERR_COORD_TRANSFM_OUTSIDE_PROJECTION_DOMAIN)"
    by (simp add: laea_s_inverse_def hypot_def Let_def)
  moreover have "opaque equit_sphere_P = Some equit_sphere_Q"
    "inv_pj equit_sphere_P = Some Laea_s_inverse" "last_errno equit_sphere_P = None"
    by (simp_all add: equit_sphere_P_def PJ_init_def)
  ultimately show ?thesis
    using setup_equit_sphere by (simp add: proj_errno_set_def)
qed

subsection \<open>The domain guard of the ellipsoidal forward kernel\<close>

text \<open>
  C3 (as amended). The guard \<open>\<bar>b\<bar> < EPS10\<close> of the ellipsoidal forward kernel is applied in
  all four modes: the kernel signals the outside-projection-domain error and returns the
  zero pair exactly when \<open>\<bar>b\<bar> < EPS10\<close>, where \<open>b\<close> is
  \<open>1 + sinb1 * sin xi + cosb1 * cos xi * cos lam\<close> in Oblique mode,
  \<open>1 + cos xi * cos lam\<close> in Equatorial mode, \<open>M_HALFPI + phi\<close> in North-Polar mode and
  \<open>phi - M_HALFPI\<close> in South-Polar mode; otherwise the instance is left as it is.
\<close>

theorem laea_e_forward_guard_all_modes:
  "(let xi = pj_authalic_lat H (phi lp) (sin (phi lp)) (cos (phi lp)) (apa Q)
               (ellipsoid.truncate P) (qp Q);
        b = (if mode Q = OBLIQ then 1 + sinb1 Q * sin xi + cosb1 Q * cos xi * cos (lam lp)
             else if mode Q = EQUIT then 1 + cos xi * cos (lam lp)
             else if mode Q = N_POLE then M_HALFPI K + phi lp
             else phi lp - M_HALFPI K)
    in if \<bar>b\<bar> < EPS10
       then laea_e_forward K H lp P Q
              = (\<lparr>x = 0, y = 0\<rparr>,
                 proj_errno_set P PROJ_ERR_COORD_TRANSFM_OUTSIDE_PROJECTION_DOMAIN)
       else snd (laea_e_forward K H lp P Q) = P)"
  by (cases "mode Q")
     (simp_all add: laea_e_forward_def laea_e_forward_polar_def Let_def)

theorem laea_e_forward_guard_all_modes_witness:
  "\<bar>M_HALFPI exact_macros + - (pi / 2)\<bar> < EPS10 \<and>
   laea_e_forward exact_macros authalic_sphere \<lparr>lam = 0, phi = - (pi / 2)\<rparr>
       north_ellps_P north_ellps_Q
     = (\<lparr>x = 0, y = 0\<rparr>,
        proj_errno_set north_ellps_P PROJ_ERR_COORD_TRANSFM_OUTSIDE_PROJECTION_DOMAIN) \<and>
   \<not> \<bar>M_HALFPI exact_macros + pi / 2\<bar> < EPS10 \<and>
   snd (laea_e_forward exact_macros authalic_sphere \<lparr>lam = 0, phi = pi / 2\<rparr>
       north_ellps_P north_ellps_Q) = north_ellps_P"
proof -
  have m: "mode north_ellps_Q = N_POLE"
    by (simp add: north_ellps_Q_def)
  have a: "\<bar>M_HALFPI exact_macros + - (pi / 2)\<bar> < EPS10"
    by (simp add: EPS10_def exact_macros_def)
  have b: "\<not> \<bar>M_HALFPI exact_macros + pi / 2\<bar> < EPS10"
    using pi_ge_two by (simp add: EPS10_def exact_macros_def)
  from laea_e_forward_guard_all_modes [where Q = north_ellps_Q and H = authalic_sphere
         and P = north_ellps_P and K = exact_macros
         and lp = "\<lparr>lam = 0, phi = - (pi / 2)\<rparr>"]
       laea_e_forward_guard_all_modes [where Q = north_ellps_Q and H = authalic_sphere
         and P = north_ellps_P and K = exact_macros
         and lp = "\<lparr>lam = 0, phi = pi / 2\<rparr>"]
       m a b
  show ?thesis by (simp add: Let_def)
qed

text \<open>
  C3 as stated fails: the North-Polar ellipsoidal instance signals the error at the
  latitude \<open>- pi / 2\<close>, where \<open>b = 0\<close>.
\<close>

theorem laea_e_forward_guard_north_polar:
  "PJ_PROJECTION_laea exact_macros authalic_sphere True (PJ_init (pi / 2) (1 / 150))
     = Inr north_ellps_P \<and>
   opaque north_ellps_P = Some north_ellps_Q \<and>
   fwd north_ellps_P = Some Laea_e_forward \<and>
   mode north_ellps_Q = N_POLE \<and>
   last_errno north_ellps_P = None \<and>
   fst (laea_e_forward exact_macros authalic_sphere \<lparr>lam = 0, phi = - (pi / 2)\<rparr>
          north_ellps_P north_ellps_Q) = \<lparr>x = 0, y = 0\<rparr> \<and>
   last_errno (snd (laea_e_forward exact_macros authalic_sphere \<lparr>lam = 0, phi = - (pi / 2)\<rparr>
                      north_ellps_P north_ellps_Q))
     = Some PROJ_ERR_COORD_TRANSFM_OUTSIDE_PROJECTION_DOMAIN"
proof -
  have "laea_e_forward exact_macros authalic_sphere \<lparr>lam = 0, phi = - (pi / 2)\<rparr>
          north_ellps_P north_ellps_Q
     = (\<lparr>x = 0, y = 0\<rparr>,
        proj_errno_set north_ellps_P PROJ_ERR_COORD_TRANSFM_OUTSIDE_PROJECTION_DOMAIN)"
    by (simp add: laea_e_forward_def north_ellps_Q_def calloc_pj_laea_data_def
        exact_macros_def EPS10_def Let_def)
  moreover have "opaque north_ellps_P = Some north_ellps_Q"
    "fwd north_ellps_P = Some Laea_e_forward" "last_errno north_ellps_P = None"
    by (simp_all add: north_ellps_P_def PJ_init_def)
  moreover have "mode north_ellps_Q = N_POLE"
    by (simp add: north_ellps_Q_def)
  ultimately show ?thesis
    using setup_north_ellps by (simp add: proj_errno_set_def)
qed

subsection \<open>The inverse of the origin\<close>

text \<open>
  C4 (as amended). In Equatorial or Oblique mode the inverse kernels map the planar pair
  \<open>(0, 0)\<close> as follows, without signalling an error: the ellipsoidal kernel (for a scale
  factor \<open>dd\<close> other than zero) and the spherical kernel in Oblique mode return exactly
  \<open>(lam = 0, phi = phi0)\<close>; the spherical kernel in Equatorial mode returns
  \<open>(lam = 0, phi = 0)\<close>, which is \<open>phi0\<close> only when the centre latitude is exactly 0.
\<close>

theorem inverse_of_origin:
  assumes "mode Q = EQUIT \<or> mode Q = OBLIQ"
  shows "(dd Q \<noteq> 0 \<longrightarrow>
            laea_e_inverse H \<lparr>x = 0, y = 0\<rparr> P Q = (\<lparr>lam = 0, phi = phi0 P\<rparr>, P)) \<and>
         laea_s_inverse K \<lparr>x = 0, y = 0\<rparr> P Q
           = (\<lparr>lam = 0, phi = (if mode Q = EQUIT then 0 else phi0 P)\<rparr>, P)"
  using assms EPS10_pos
  by (auto simp: laea_e_inverse_def laea_e_inverse_oblique_def laea_s_inverse_def hypot_def
      Let_def)

theorem inverse_of_origin_witness:
  "(mode equit_ellps_Q = EQUIT \<or> mode equit_ellps_Q = OBLIQ) \<and> dd equit_ellps_Q \<noteq> 0 \<and>
   laea_e_inverse authalic_sphere \<lparr>x = 0, y = 0\<rparr> equit_ellps_P equit_ellps_Q
     = (\<lparr>lam = 0, phi = phi0 equit_ellps_P\<rparr>, equit_ellps_P) \<and>
   laea_s_inverse exact_macros \<lparr>x = 0, y = 0\<rparr> equit_ellps_P equit_ellps_Q
     = (\<lparr>lam = 0, phi = 0\<rparr>, equit_ellps_P)"
proof -
  have m: "mode equit_ellps_Q = EQUIT \<or> mode equit_ellps_Q = OBLIQ"
    by (simp add: equit_ellps_Q_def)
  have d: "dd equit_ellps_Q \<noteq> 0"
    by (simp add: equit_ellps_Q_def)
  from inverse_of_origin [OF m, where H = authalic_sphere and P = equit_ellps_P
         and K = exact_macros] m d
  show ?thesis
    by (simp add: equit_ellps_Q_def)
qed

text \<open>
  C4 as stated fails: set up on the sphere with the centre latitude \<open>5e-11\<close>, the instance
  is Equatorial and its inverse kernel maps \<open>(0, 0)\<close> to the latitude 0, not to \<open>phi0\<close>.
\<close>

theorem inverse_of_origin_equit_sphere:
  "PJ_PROJECTION_laea exact_macros authalic_sphere True (PJ_init (1 / (2 * 10 ^ 10)) 0)
     = Inr equit_sphere_P \<and>
   opaque equit_sphere_P = Some equit_sphere_Q \<and>
   inv_pj equit_sphere_P = Some Laea_s_inverse \<and>
   mode equit_sphere_Q = EQUIT \<and>
   phi0 equit_sphere_P = 1 / (2 * 10 ^ 10) \<and>
   fst (laea_s_inverse exact_macros \<lparr>x = 0, y = 0\<rparr> equit_sphere_P equit_sphere_Q)
     = \<lparr>lam = 0, phi = 0\<rparr> \<and>
   fst (laea_s_inverse exact_macros \<lparr>x = 0, y = 0\<rparr> equit_sphere_P equit_sphere_Q)
     \<noteq> \<lparr>lam = 0, phi = phi0 equit_sphere_P\<rparr>"
proof -
  have "fst (laea_s_inverse exact_macros \<lparr>x = 0, y = 0\<rparr> equit_sphere_P equit_sphere_Q)
          = \<lparr>lam = 0, phi = 0\<rparr>"
    by (simp add: laea_s_inverse_def hypot_def equit_sphere_Q_def EPS10_def Let_def)
  with setup_equit_sphere show ?thesis
    by (simp add: equit_sphere_P_def equit_sphere_Q_def PJ_init_def)
qed

subsection \<open>Rejection of the centre latitude\<close>

text \<open>
  C6. When the state block is allocated and the constants are the exact angle and the
  exact sum, the setup routine fails with the illegal-argument error and creates no
  instance for every centre latitude with \<open>\<bar>phi0\<bar> > pi / 2 + EPS10\<close>, and for every centre
  latitude with \<open>\<bar>phi0\<bar> \<le> pi / 2 + EPS10\<close> it does not raise the illegal-argument error.
\<close>

theorem setup_latitude_check:
  assumes "calloc_ok" and "M_HALFPI K = pi / 2"
    and "M_HALFPI_plus_EPS10 K = M_HALFPI K + EPS10"
  shows "(\<bar>phi0 P\<bar> > pi / 2 + EPS10 \<longrightarrow>
            PJ_PROJECTION_laea K H calloc_ok P = Inl PROJ_ERR_INVALID_OP_ILLEGAL_ARG_VALUE) \<and>
         (\<bar>phi0 P\<bar> \<le> pi / 2 + EPS10 \<longrightarrow>
            PJ_PROJECTION_laea K H calloc_ok P \<noteq> Inl PROJ_ERR_INVALID_OP_ILLEGAL_ARG_VALUE)"
  using assms
  by (simp add: PJ_PROJECTION_laea_def pj_default_destructor_def pj_laea_destructor_def
      Let_def)

theorem setup_latitude_check_witness:
  "M_HALFPI exact_macros = pi / 2 \<and>
   M_HALFPI_plus_EPS10 exact_macros = M_HALFPI exact_macros + EPS10 \<and>
   \<bar>phi0 (PJ_init (5 * pi / 9) 0)\<bar> > pi / 2 + EPS10 \<and>
   PJ_PROJECTION_laea exact_macros authalic_sphere True (PJ_init (5 * pi / 9) 0)
     = Inl PROJ_ERR_INVALID_OP_ILLEGAL_ARG_VALUE \<and>
   \<bar>phi0 (PJ_init (pi / 2) 0)\<bar> \<le> pi / 2 + EPS10 \<and>
   PJ_PROJECTION_laea exact_macros authalic_sphere True (PJ_init (pi / 2) 0)
     \<noteq> Inl PROJ_ERR_INVALID_OP_ILLEGAL_ARG_VALUE"
proof -
  have k: "M_HALFPI exact_macros = pi / 2"
    by (simp add: exact_macros_def)
  have s: "M_HALFPI_plus_EPS10 exact_macros = M_HALFPI exact_macros + EPS10"
    by (simp add: exact_macros_def)
  have a: "\<bar>phi0 (PJ_init (5 * pi / 9) 0)\<bar> > pi / 2 + EPS10"
    using pi_ge_two by (simp add: PJ_init_def EPS10_def)
  have b: "\<bar>phi0 (PJ_init (pi / 2) 0)\<bar> \<le> pi / 2 + EPS10"
    by (simp add: PJ_init_def EPS10_def)
  from setup_latitude_check [OF TrueI k s, where P = "PJ_init (5 * pi / 9) 0"
         and H = authalic_sphere]
       setup_latitude_check [OF TrueI k s, where P = "PJ_init (pi / 2) 0"
         and H = authalic_sphere] k s a b
  show ?thesis by simp
qed

subsection \<open>The domain guard of the spherical forward kernel in the polar modes\<close>

text \<open>
  C7. In a polar mode the spherical forward kernel signals the outside-projection-domain
  error when \<open>\<bar>phi + phi0\<bar> < EPS10\<close>, and leaves the instance without an error otherwise.
\<close>

theorem laea_s_forward_polar_guard:
  assumes "mode Q = N_POLE \<or> mode Q = S_POLE"
  shows "if \<bar>phi lp + phi0 P\<bar> < EPS10
         then snd (laea_s_forward K lp P Q)
                = proj_errno_set P PROJ_ERR_COORD_TRANSFM_OUTSIDE_PROJECTION_DOMAIN
         else snd (laea_s_forward K lp P Q) = P"
  using assms by (auto simp: laea_s_forward_def laea_s_forward_polar_def Let_def)

theorem laea_s_forward_polar_guard_witness:
  "(mode north_sphere_Q = N_POLE \<or> mode north_sphere_Q = S_POLE) \<and>
   \<bar>phi \<lparr>lam = 0, phi = - (pi / 2)\<rparr> + phi0 north_sphere_P\<bar> < EPS10 \<and>
   snd (laea_s_forward exact_macros \<lparr>lam = 0, phi = - (pi / 2)\<rparr> north_sphere_P north_sphere_Q)
     = proj_errno_set north_sphere_P PROJ_ERR_COORD_TRANSFM_OUTSIDE_PROJECTION_DOMAIN \<and>
   \<not> \<bar>phi \<lparr>lam = 0, phi = 0\<rparr> + phi0 north_sphere_P\<bar> < EPS10 \<and>
   snd (laea_s_forward exact_macros \<lparr>lam = 0, phi = 0\<rparr> north_sphere_P north_sphere_Q)
     = north_sphere_P"
proof -
  have m: "mode north_sphere_Q = N_POLE \<or> mode north_sphere_Q = S_POLE"
    by (simp add: north_sphere_Q_def)
  have a: "\<bar>phi \<lparr>lam = 0, phi = - (pi / 2)\<rparr> + phi0 north_sphere_P\<bar> < EPS10"
    by (simp add: north_sphere_P_def PJ_init_def EPS10_def)
  have b: "\<not> \<bar>phi \<lparr>lam = 0, phi = 0\<rparr> + phi0 north_sphere_P\<bar> < EPS10"
    using pi_ge_two by (simp add: north_sphere_P_def PJ_init_def EPS10_def)
  from laea_s_forward_polar_guard [OF m, where lp = "\<lparr>lam = 0, phi = - (pi / 2)\<rparr>"
         and P = north_sphere_P and K = exact_macros]
       laea_s_forward_polar_guard [OF m, where lp = "\<lparr>lam = 0, phi = 0\<rparr>"
         and P = north_sphere_P and K = exact_macros] m a b
  show ?thesis by simp
qed

subsection \<open>The coefficient block\<close>

text \<open>
  C8. For every instance that the setup routine has constructed, at any time of its
  lifetime, the pointer \<open>apa\<close> of the state block is non-null if and only if the squared
  eccentricity \<open>es\<close> handed to the setup routine is not zero.
\<close>

theorem apa_iff_ellipsoidal:
  assumes "PJ_PROJECTION_laea K H calloc_ok P = Inr P0" and "lifetime K H P0 P'"
  shows "\<exists>Q. opaque P' = Some Q \<and> (apa Q \<noteq> None \<longleftrightarrow> es P \<noteq> 0)"
  using setup_apa [OF assms(1)] lifetime_opaque [OF assms(2)] by auto

theorem apa_iff_ellipsoidal_witness:
  "PJ_PROJECTION_laea exact_macros authalic_sphere True (PJ_init (pi / 2) 0)
     = Inr north_sphere_P \<and>
   lifetime exact_macros authalic_sphere north_sphere_P
     (snd (call_fwd exact_macros authalic_sphere Laea_s_forward \<lparr>lam = 0, phi = - (pi / 2)\<rparr>
             north_sphere_P north_sphere_Q)) \<and>
   es (PJ_init (pi / 2) 0) = 0 \<and>
   map_option apa
     (opaque (snd (call_fwd exact_macros authalic_sphere Laea_s_forward
                     \<lparr>lam = 0, phi = - (pi / 2)\<rparr> north_sphere_P north_sphere_Q)))
     = Some None \<and>
   PJ_PROJECTION_laea exact_macros authalic_sphere True (PJ_init 0 (1 / 150))
     = Inr equit_ellps_P \<and>
   lifetime exact_macros authalic_sphere equit_ellps_P
     (snd (call_inv exact_macros authalic_sphere Laea_e_inverse \<lparr>x = 3, y = 0\<rparr>
             equit_ellps_P equit_ellps_Q)) \<and>
   es (PJ_init 0 (1 / 150)) \<noteq> 0 \<and>
   map_option apa
     (opaque (snd (call_inv exact_macros authalic_sphere Laea_e_inverse \<lparr>x = 3, y = 0\<rparr>
                     equit_ellps_P equit_ellps_Q))) = Some (Some [])"
proof -
  let ?P1 = "snd (call_fwd exact_macros authalic_sphere Laea_s_forward
                \<lparr>lam = 0, phi = - (pi / 2)\<rparr> north_sphere_P north_sphere_Q)"
  let ?P2 = "snd (call_inv exact_macros authalic_sphere Laea_e_inverse \<lparr>x = 3, y = 0\<rparr>
                equit_ellps_P equit_ellps_Q)"
  have l1: "lifetime exact_macros authalic_sphere north_sphere_P ?P1"
    by (rule lifetime_fwd [OF lifetime_setup]) (simp_all add: north_sphere_P_def)
  have l2: "lifetime exact_macros authalic_sphere equit_ellps_P ?P2"
    by (rule lifetime_inv [OF lifetime_setup]) (simp_all add: equit_ellps_P_def)
  have o1: "opaque ?P1 = Some north_sphere_Q"
    using lifetime_opaque [OF l1] by (simp add: north_sphere_P_def)
  have o2: "opaque ?P2 = Some equit_ellps_Q"
    using lifetime_opaque [OF l2] by (simp add: equit_ellps_P_def)
  have e: "es (PJ_init (pi / 2) 0) = 0" "es (PJ_init 0 (1 / 150)) \<noteq> 0"
    by (simp_all add: PJ_init_def)
  have q: "apa north_sphere_Q = None" "apa equit_ellps_Q = Some []"
    by (simp_all add: north_sphere_Q_def equit_ellps_Q_def calloc_pj_laea_data_def)
  from apa_iff_ellipsoidal [OF setup_north_sphere l1]
       apa_iff_ellipsoidal [OF setup_equit_ellps l2]
       setup_north_sphere setup_equit_ellps l1 l2 o1 o2 e q
  show ?thesis by simp
qed

subsection \<open>Symmetry of the spherical Equatorial forward kernel\<close>

text \<open>
  C9. For a spherical instance in Equatorial mode, the forward kernel at \<open>(- lam, phi)\<close>
  returns the same \<open>y\<close> as at \<open>(lam, phi)\<close> and the negated \<open>x\<close>.
\<close>

theorem laea_s_forward_equit_symmetry:
  assumes "mode Q = EQUIT"
  shows "x (fst (laea_s_forward K (lp\<lparr>lam := - lam lp\<rparr>) P Q))
           = - x (fst (laea_s_forward K lp P Q)) \<and>
         y (fst (laea_s_forward K (lp\<lparr>lam := - lam lp\<rparr>) P Q))
           = y (fst (laea_s_forward K lp P Q))"
  using assms by (simp add: laea_s_forward_def laea_s_forward_oblcon_def Let_def)

theorem laea_s_forward_equit_symmetry_witness:
  "mode equit_sphere_Q = EQUIT \<and>
   fst (laea_s_forward exact_macros \<lparr>lam = pi / 2, phi = 0\<rparr> equit_sphere_P equit_sphere_Q)
     = \<lparr>x = sqrt 2, y = 0\<rparr> \<and>
   fst (laea_s_forward exact_macros \<lparr>lam = - (pi / 2), phi = 0\<rparr> equit_sphere_P equit_sphere_Q)
     = \<lparr>x = - sqrt 2, y = 0\<rparr>"
proof -
  have m: "mode equit_sphere_Q = EQUIT"
    by (simp add: equit_sphere_Q_def)
  have f: "fst (laea_s_forward exact_macros \<lparr>lam = pi / 2, phi = 0\<rparr>
                  equit_sphere_P equit_sphere_Q) = \<lparr>x = sqrt 2, y = 0\<rparr>"
    by (simp add: laea_s_forward_def laea_s_forward_oblcon_def equit_sphere_Q_def EPS10_def
        Let_def)
  from laea_s_forward_equit_symmetry [OF m, where lp = "\<lparr>lam = pi / 2, phi = 0\<rparr>"
         and P = equit_sphere_P and K = exact_macros] m f
  show ?thesis
    by (cases "fst (laea_s_forward exact_macros \<lparr>lam = - (pi / 2), phi = 0\<rparr>
                      equit_sphere_P equit_sphere_Q)")
       simp
qed

subsection \<open>The scale factor mmf\<close>

text \<open>
  C10. Two states that agree on every member except \<open>mmf\<close> give the same results and the
  same error code in all four kernels, for every input pair.
\<close>

theorem mmf_without_influence:
  "fst (laea_e_forward K H lp (P\<lparr>opaque := Some (Q\<lparr>mmf := m\<rparr>)\<rparr>) (Q\<lparr>mmf := m\<rparr>))
     = fst (laea_e_forward K H lp (P\<lparr>opaque := Some Q\<rparr>) Q) \<and>
   last_errno (snd (laea_e_forward K H lp (P\<lparr>opaque := Some (Q\<lparr>mmf := m\<rparr>)\<rparr>) (Q\<lparr>mmf := m\<rparr>)))
     = last_errno (snd (laea_e_forward K H lp (P\<lparr>opaque := Some Q\<rparr>) Q)) \<and>
   fst (laea_s_forward K lp (P\<lparr>opaque := Some (Q\<lparr>mmf := m\<rparr>)\<rparr>) (Q\<lparr>mmf := m\<rparr>))
     = fst (laea_s_forward K lp (P\<lparr>opaque := Some Q\<rparr>) Q) \<and>
   last_errno (snd (laea_s_forward K lp (P\<lparr>opaque := Some (Q\<lparr>mmf := m\<rparr>)\<rparr>) (Q\<lparr>mmf := m\<rparr>)))
     = last_errno (snd (laea_s_forward K lp (P\<lparr>opaque := Some Q\<rparr>) Q)) \<and>
   fst (laea_e_inverse H xy (P\<lparr>opaque := Some (Q\<lparr>mmf := m\<rparr>)\<rparr>) (Q\<lparr>mmf := m\<rparr>))
     = fst (laea_e_inverse H xy (P\<lparr>opaque := Some Q\<rparr>) Q) \<and>
   last_errno (snd (laea_e_inverse H xy (P\<lparr>opaque := Some (Q\<lparr>mmf := m\<rparr>)\<rparr>) (Q\<lparr>mmf := m\<rparr>)))
     = last_errno (snd (laea_e_inverse H xy (P\<lparr>opaque := Some Q\<rparr>) Q)) \<and>
   fst (laea_s_inverse K xy (P\<lparr>opaque := Some (Q\<lparr>mmf := m\<rparr>)\<rparr>) (Q\<lparr>mmf := m\<rparr>))
     = fst (laea_s_inverse K xy (P\<lparr>opaque := Some Q\<rparr>) Q) \<and>
   last_errno (snd (laea_s_inverse K xy (P\<lparr>opaque := Some (Q\<lparr>mmf := m\<rparr>)\<rparr>) (Q\<lparr>mmf := m\<rparr>)))
     = last_errno (snd (laea_s_inverse K xy (P\<lparr>opaque := Some Q\<rparr>) Q))"
proof (intro conjI)
  show "fst (laea_e_forward K H lp (P\<lparr>opaque := Some (Q\<lparr>mmf := m\<rparr>)\<rparr>) (Q\<lparr>mmf := m\<rparr>))
     = fst (laea_e_forward K H lp (P\<lparr>opaque := Some Q\<rparr>) Q)"
    by (cases "mode Q")
       (simp_all add: laea_e_forward_def laea_e_forward_polar_def ellipsoid.defs Let_def)
  show "last_errno (snd (laea_e_forward K H lp (P\<lparr>opaque := Some (Q\<lparr>mmf := m\<rparr>)\<rparr>) (Q\<lparr>mmf := m\<rparr>)))
     = last_errno (snd (laea_e_forward K H lp (P\<lparr>opaque := Some Q\<rparr>) Q))"
    by (cases "mode Q")
       (simp_all add: laea_e_forward_def laea_e_forward_polar_def ellipsoid.defs Let_def
          proj_errno_set_def)
  show "fst (laea_s_forward K lp (P\<lparr>opaque := Some (Q\<lparr>mmf := m\<rparr>)\<rparr>) (Q\<lparr>mmf := m\<rparr>))
     = fst (laea_s_forward K lp (P\<lparr>opaque := Some Q\<rparr>) Q)"
    by (cases "mode Q")
       (simp_all add: laea_s_forward_def laea_s_forward_oblcon_def laea_s_forward_polar_def
          Let_def)
  show "last_errno (snd (laea_s_forward K lp (P\<lparr>opaque := Some (Q\<lparr>mmf := m\<rparr>)\<rparr>) (Q\<lparr>mmf := m\<rparr>)))
     = last_errno (snd (laea_s_forward K lp (P\<lparr>opaque := Some Q\<rparr>) Q))"
    by (cases "mode Q")
       (simp_all add: laea_s_forward_def laea_s_forward_oblcon_def laea_s_forward_polar_def
          Let_def proj_errno_set_def)
  show "fst (laea_e_inverse H xy (P\<lparr>opaque := Some (Q\<lparr>mmf := m\<rparr>)\<rparr>) (Q\<lparr>mmf := m\<rparr>))
     = fst (laea_e_inverse H xy (P\<lparr>opaque := Some Q\<rparr>) Q)"
    by (cases "mode Q")
       (simp_all add: laea_e_inverse_def laea_e_inverse_oblique_def laea_e_inverse_polar_def
          laea_e_inverse_tail_def ellipsoid.defs Let_def)
  show "last_errno (snd (laea_e_inverse H xy (P\<lparr>opaque := Some (Q\<lparr>mmf := m\<rparr>)\<rparr>) (Q\<lparr>mmf := m\<rparr>)))
     = last_errno (snd (laea_e_inverse H xy (P\<lparr>opaque := Some Q\<rparr>) Q))"
    by (cases "mode Q")
       (simp_all add: laea_e_inverse_def laea_e_inverse_oblique_def laea_e_inverse_polar_def
          laea_e_inverse_tail_def ellipsoid.defs Let_def proj_errno_set_def)
  show "fst (laea_s_inverse K xy (P\<lparr>opaque := Some (Q\<lparr>mmf := m\<rparr>)\<rparr>) (Q\<lparr>mmf := m\<rparr>))
     = fst (laea_s_inverse K xy (P\<lparr>opaque := Some Q\<rparr>) Q)"
    by (cases "mode Q") (simp_all add: laea_s_inverse_def Let_def)
  show "last_errno (snd (laea_s_inverse K xy (P\<lparr>opaque := Some (Q\<lparr>mmf := m\<rparr>)\<rparr>) (Q\<lparr>mmf := m\<rparr>)))
     = last_errno (snd (laea_s_inverse K xy (P\<lparr>opaque := Some Q\<rparr>) Q))"
    by (cases "mode Q") (simp_all add: laea_s_inverse_def Let_def proj_errno_set_def)
qed

end
